theory Spec2Isabelle
  imports Main "HOL-Library.Product_Lexorder"
begin

section \<open>The listings views: data\<close>

text \<open>
  The development embeds the methods of \<^verbatim>\<open>listings/views.py\<close>: the availability
  check of a listing, the visibility rule of \<^verbatim>\<open>get_queryset\<close>, the permission tables
  of \<^verbatim>\<open>get_permissions\<close> and the two \<^verbatim>\<open>perform_create\<close> hooks. Each method is a
  function of the database and of the arguments the method reads; an exception that the
  Python raises is a value on the left of a sum.
\<close>

subsection \<open>Calendar dates\<close>

text \<open>
  A \<^verbatim>\<open>datetime.date\<close> is the triple (year, month, day); Python compares two dates as it
  compares these triples, which is the lexicographic order of the product type.
\<close>

type_synonym date = "nat \<times> nat \<times> nat"

definition is_leap :: "nat \<Rightarrow> bool" where
  "is_leap y = (y mod 4 = 0 \<and> (y mod 100 \<noteq> 0 \<or> y mod 400 = 0))"

definition days_in_month :: "nat \<Rightarrow> nat \<Rightarrow> nat" where
  "days_in_month y m =
     (if m = 2 then (if is_leap y then 29 else 28)
      else if m \<in> set [4, 6, 9, 11] then 30 else 31)"

text \<open>The constructor \<^verbatim>\<open>date(y, m, d)\<close> raises ValueError outside these ranges.\<close>

definition valid_date :: "date \<Rightarrow> bool" where
  "valid_date dt =
     (case dt of (y, m, d) \<Rightarrow>
        1 \<le> y \<and> y \<le> 9999 \<and> 1 \<le> m \<and> m \<le> 12 \<and> 1 \<le> d \<and> d \<le> days_in_month y m)"

subsection \<open>Query parameters\<close>

text \<open>
  A query parameter is a Python \<^verbatim>\<open>str\<close>: a list of Unicode code points. \<open>ascii\<close> gives
  the code points of a literal.
\<close>

type_synonym str = "nat list"

definition ascii :: "string \<Rightarrow> str" where
  "ascii s = map of_char s"

text \<open>
  The class \<^verbatim>\<open>\d\<close> of a \<^verbatim>\<open>str\<close> pattern holds the decimal digits of Unicode, and
  \<^verbatim>\<open>int\<close> reads them all. They come in runs of ten, from the digit zero to the digit
  nine of a script; the list has the first code point of every run (Unicode 14, the
  table of Python 3.11).
\<close>

definition decimal_runs :: "nat list" where
  "decimal_runs =
     [48, 1632, 1776, 1984, 2406, 2534, 2662, 2790, 2918, 3046, 3174, 3302, 3430, 3558,
      3664, 3792, 3872, 4160, 4240, 6112, 6160, 6470, 6608, 6784, 6800, 6992, 7088, 7232,
      7248, 42528, 43216, 43264, 43472, 43504, 43600, 44016, 65296, 66720, 68912, 69734,
      69872, 69942, 70096, 70384, 70736, 70864, 71248, 71360, 71472, 71904, 72016, 72784,
      73040, 73120, 92768, 92864, 93008, 120782, 120792, 120802, 120812, 120822, 123200,
      123632, 125264, 130032]"

definition decimal :: "nat \<Rightarrow> nat option" where
  "decimal c =
     (case find (\<lambda>z. z \<le> c \<and> c < z + 10) decimal_runs of
        None \<Rightarrow> None
      | Some z \<Rightarrow> Some (c - z))"

definition is_digit :: "nat \<Rightarrow> bool" where
  "is_digit c = (decimal c \<noteq> None)"

definition digit_val :: "nat \<Rightarrow> nat" where
  "digit_val c = (case decimal c of None \<Rightarrow> 0 | Some v \<Rightarrow> v)"

text \<open>The classes that the pattern writes out, such as \<^verbatim>\<open>[1-9]\<close>, hold ASCII digits only.\<close>

definition is_nonzero_digit :: "nat \<Rightarrow> bool" where
  "is_nonzero_digit c = (c \<in> set (ascii ''123456789''))"

subsection \<open>\<^verbatim>\<open>datetime.strptime(s, '%Y-%m-%d').date()\<close>\<close>

text \<open>
  The library compiles the format to the regular expression
  \<^verbatim>\<open>(\d\d\d\d)-(1[0-2]|0[1-9]|[1-9])-(3[0-1]|[1-2]\d|0[1-9]|[1-9]| [1-9])\<close>,
  matches it at the start of the string, refuses a string with characters left over, and
  then builds the date, which checks the day against the month. Every failure is a
  ValueError, here \<open>None\<close>.

  The alternatives of a group that match at the head of the string, in the order the
  regular expression tries them, each with the number it reads and the rest of the string:
\<close>

definition month_alts :: "str \<Rightarrow> (nat \<times> str) list" where
  "month_alts s =
     (case s of
        a # b # r \<Rightarrow>
          (if a = of_char CHR ''1'' \<and> b \<in> set (ascii ''012'') then [(10 + digit_val b, r)]
           else []) @
          (if a = of_char CHR ''0'' \<and> is_nonzero_digit b then [(digit_val b, r)] else [])
      | _ \<Rightarrow> []) @
     (case s of
        a # r \<Rightarrow> (if is_nonzero_digit a then [(digit_val a, r)] else [])
      | [] \<Rightarrow> [])"

definition day_alts :: "str \<Rightarrow> (nat \<times> str) list" where
  "day_alts s =
     (case s of
        a # b # r \<Rightarrow>
          (if a = of_char CHR ''3'' \<and> b \<in> set (ascii ''01'') then [(30 + digit_val b, r)]
           else []) @
          (if a \<in> set (ascii ''12'') \<and> is_digit b then [(10 * digit_val a + digit_val b, r)]
           else []) @
          (if a = of_char CHR ''0'' \<and> is_nonzero_digit b then [(digit_val b, r)] else [])
      | _ \<Rightarrow> []) @
     (case s of
        a # r \<Rightarrow> (if is_nonzero_digit a then [(digit_val a, r)] else [])
      | [] \<Rightarrow> []) @
     (case s of
        a # b # r \<Rightarrow>
          (if a = of_char CHR '' '' \<and> is_nonzero_digit b then [(digit_val b, r)] else [])
      | _ \<Rightarrow> [])"

definition strptime :: "str \<Rightarrow> date option" where
  "strptime s =
     (case s of
        y1 # y2 # y3 # y4 # dash # s1 \<Rightarrow>
          if is_digit y1 \<and> is_digit y2 \<and> is_digit y3 \<and> is_digit y4 \<and>
             dash = of_char CHR ''-'' then
            (case find (\<lambda>(m, r). take 1 r = ascii ''-'') (month_alts s1) of
               None \<Rightarrow> None
             | Some (m, r) \<Rightarrow>
                 (case day_alts (drop 1 r) of
                    [] \<Rightarrow> None
                  | (d, rest) # _ \<Rightarrow>
                      let y = 1000 * digit_val y1 + 100 * digit_val y2
                                + 10 * digit_val y3 + digit_val y4
                      in if rest = [] \<and> valid_date (y, m, d) then Some (y, m, d) else None))
          else None
      | _ \<Rightarrow> None)"

subsection \<open>Rows and the database\<close>

text \<open>
  \<^verbatim>\<open>models.py\<close> is not part of the sources: the records hold the columns that the views
  read or write. A foreign key is the key of the row it points to. A user has at most one
  profile, so the profiles are a map from the user.
\<close>

record profile =
  user :: nat
  role :: string

record listing =
  property_id :: nat
  host :: nat
  listing_status :: string

record booking =
  property :: nat
  status :: string
  start_date :: date
  end_date :: date

record db =
  profiles :: "nat \<rightharpoonup> profile"
  listings :: "listing list"
  bookings :: "booking list"

datatype exn =
    Http404
  | MultipleObjectsReturned
  | NameError string
  | UnboundLocalError string
  | TypeError string
  | NotAuthenticated
  | SaveError string

text \<open>The queries a method sends, in order.\<close>

datatype query = Listing_get | Booking_exists | Booking_count

record availability_data =
  available :: bool
  start_date_out :: date
  end_date_out :: date
  conflicting_bookings :: nat

datatype response = Response availability_data | Response_400 string

subsection \<open>Names bound in the module\<close>

text \<open>
  The names the module's imports and class statements bind. A name that a method reads
  and that is neither local to it nor in this list (nor a builtin) raises NameError.
\<close>

definition module_globals :: "string list" where
  "module_globals =
     [''viewsets'', ''permissions'', ''action'', ''Response'', ''DjangoFilterBackend'',
      ''get_object_or_404'', ''User'', ''Q'', ''Avg'', ''date'', ''datetime'', ''timedelta'',
      ''UserProfile'', ''Listing'', ''Booking'', ''Review'',
      ''UserProfileSerializer'', ''ListingSerializer'', ''BookingSerializer'',
      ''ReviewSerializer'', ''ListingFilter'', ''BookingFilter'',
      ''UserProfileVViews'', ''ListingViews'', ''BookingViews'']"

definition lookup_global :: "string \<Rightarrow> exn + unit" where
  "lookup_global n = (if n \<in> set module_globals then Inr () else Inl (NameError n))"

section \<open>The permission checks of the framework\<close>

datatype permission = AllowAny | IsAuthenticated

text \<open>
  Before it calls the method of an action, the framework runs \<^verbatim>\<open>check_permissions\<close>:
  it iterates over the value of \<^verbatim>\<open>get_permissions()\<close> and refuses the request
  (\<^verbatim>\<open>NotAuthenticated\<close> or \<^verbatim>\<open>PermissionDenied\<close>, the 401 or 403) when a permission
  does not hold. The principal of a request is a user or nobody. The value of
  \<^verbatim>\<open>get_permissions()\<close> is a list of permissions or Python's \<open>None\<close>.
\<close>

definition has_permission :: "permission \<Rightarrow> nat option \<Rightarrow> bool" where
  "has_permission perm requester =
     (case perm of AllowAny \<Rightarrow> True | IsAuthenticated \<Rightarrow> requester \<noteq> None)"

definition check_permissions :: "exn + permission list option \<Rightarrow> nat option \<Rightarrow> exn + unit" where
  "check_permissions perms requester =
     (case perms of
        Inl e \<Rightarrow> Inl e
      | Inr None \<Rightarrow> Inl (TypeError ''NoneType object is not iterable'')
      | Inr (Some ps) \<Rightarrow>
          if list_all (\<lambda>perm. has_permission perm requester) ps then Inr ()
          else Inl NotAuthenticated)"

text \<open>
  \<^verbatim>\<open>get_object\<close> ends with \<^verbatim>\<open>check_object_permissions\<close>, which iterates over
  \<^verbatim>\<open>get_permissions()\<close> once more and asks each permission about the object. Neither
  permission class overrides \<^verbatim>\<open>has_object_permission\<close>, which holds by default.
\<close>

definition has_object_permission :: "permission \<Rightarrow> bool" where
  "has_object_permission perm = (case perm of AllowAny \<Rightarrow> True | IsAuthenticated \<Rightarrow> True)"

definition check_object_permissions :: "exn + permission list option \<Rightarrow> exn + unit" where
  "check_object_permissions perms =
     (case perms of
        Inl e \<Rightarrow> Inl e
      | Inr None \<Rightarrow> Inl (TypeError ''NoneType object is not iterable'')
      | Inr (Some ps) \<Rightarrow>
          if list_all has_object_permission ps then Inr () else Inl NotAuthenticated)"

section \<open>ListingViews\<close>

subsection \<open>\<^verbatim>\<open>get_permissions\<close>\<close>

text \<open>
  In the last branch the method assigns \<^verbatim>\<open>permission_classess\<close> and then reads
  \<^verbatim>\<open>permission_classes\<close>, a local name that no branch taken has bound.
\<close>

definition ListingViews_get_permissions :: "string \<Rightarrow> exn + permission list option" where
  "ListingViews_get_permissions action =
     (if action \<in> set [''list'', ''retrieve''] then Inr (Some [AllowAny])
      else if action = ''create'' then Inr (Some [IsAuthenticated])
      else Inl (UnboundLocalError ''permission_classes''))"

subsection \<open>\<^verbatim>\<open>get_queryset\<close> and \<^verbatim>\<open>get_object\<close>\<close>

definition ListingViews_get_queryset :: "string \<Rightarrow> db \<Rightarrow> listing list" where
  "ListingViews_get_queryset action d =
     (if action = ''list'' then filter (\<lambda>l. listing_status l = ''approved'') (listings d)
      else listings d)"

text \<open>
  The framework's \<^verbatim>\<open>get_object\<close>: it fetches the row of the queryset whose
  \<^verbatim>\<open>lookup_field\<close> (\<^verbatim>\<open>property_id\<close>) is the key of the URL, which is NotFound when
  there is none, and then checks the permissions on the object. The filter backends act
  on query parameters of their own (\<^verbatim>\<open>filters.py\<close> is not part of the sources) and are
  taken to leave the queryset as it is.
\<close>

definition ListingViews_get_object :: "string \<Rightarrow> db \<Rightarrow> nat \<Rightarrow> exn + listing" where
  "ListingViews_get_object action d pk =
     (case filter (\<lambda>l. property_id l = pk) (ListingViews_get_queryset action d) of
        [] \<Rightarrow> Inl Http404
      | [l] \<Rightarrow>
          (case check_object_permissions (ListingViews_get_permissions action) of
             Inl e \<Rightarrow> Inl e
           | Inr _ \<Rightarrow> Inr l)
      | _ \<Rightarrow> Inl MultipleObjectsReturned)"

subsection \<open>\<^verbatim>\<open>availability\<close>\<close>

text \<open>Python's \<^verbatim>\<open>not x\<close> for a query parameter: absent or the empty string.\<close>

definition py_not :: "str option \<Rightarrow> bool" where
  "py_not p = (p = None \<or> p = Some [])"

text \<open>
  \<^verbatim>\<open>Booking.objects.filter(property=listing, status__in=['pending', 'confirmed'],
  start_date__lt=end_date, end_date__gt=start_date)\<close>: the arguments are the parsed dates
  of the request.
\<close>

definition conflict_filter :: "listing \<Rightarrow> date \<Rightarrow> date \<Rightarrow> booking \<Rightarrow> bool" where
  "conflict_filter listing start_d end_d b =
     (property b = property_id listing \<and>
      status b \<in> set [''pending'', ''confirmed''] \<and>
      start_date b < end_d \<and>
      end_date b > start_d)"

definition conflict_queryset :: "db \<Rightarrow> listing \<Rightarrow> date \<Rightarrow> date \<Rightarrow> booking list" where
  "conflict_queryset d listing start_d end_d =
     filter (conflict_filter listing start_d end_d) (bookings d)"

text \<open>
  \<^verbatim>\<open>Response(..., status=status.HTTP_400_BAD_REQUEST)\<close> reads the name \<^verbatim>\<open>status\<close>
  before the response is built.
\<close>

definition bad_request :: "string \<Rightarrow> exn + response" where
  "bad_request msg =
     (case lookup_global ''status'' of
        Inl e \<Rightarrow> Inl e
      | Inr _ \<Rightarrow> Inr (Response_400 msg))"

text \<open>
  The method reads only: it takes the database and returns its result with the queries
  it has sent, which are all its dealings with the database. \<^verbatim>\<open>filter\<close> is lazy;
  \<^verbatim>\<open>exists()\<close> and \<^verbatim>\<open>count()\<close> each send a query.

  The statements of the method after \<^verbatim>\<open>listing = self.get_object()\<close>, lines 210 to 243:
\<close>

definition availability_body ::
  "db \<Rightarrow> listing \<Rightarrow> str option \<Rightarrow> str option \<Rightarrow> (exn + response) \<times> query list" where
  "availability_body d listing start_param end_param =
     (if py_not start_param \<or> py_not end_param then
        (bad_request ''start_date and end_date parameters are required.'', [])
      else
        (case (strptime (the start_param), strptime (the end_param)) of
           (Some start_d, Some end_d) \<Rightarrow>
             let conflicting = conflict_queryset d listing start_d end_d;
                 is_available = (conflicting = [])
             in (Inr (Response \<lparr>available = is_available, start_date_out = start_d,
                                 end_date_out = end_d,
                                 conflicting_bookings = length conflicting\<rparr>),
                 [Booking_exists, Booking_count])
         | _ \<Rightarrow> (bad_request ''Invalid date format. Use YYYY-MM-DD'', [])))"

text \<open>The method: line 209 fetches the listing, then the statements above run.\<close>

definition ListingViews_availability ::
  "db \<Rightarrow> nat \<Rightarrow> str option \<Rightarrow> str option \<Rightarrow> (exn + response) \<times> query list" where
  "ListingViews_availability d pk start_param end_param =
     (case ListingViews_get_object ''availability'' d pk of
        Inl e \<Rightarrow> (Inl e, [Listing_get])
      | Inr listing \<Rightarrow>
          (case availability_body d listing start_param end_param of
             (result, queries) \<Rightarrow> (result, Listing_get # queries)))"

subsection \<open>\<^verbatim>\<open>perform_create\<close>\<close>

text \<open>
  \<^verbatim>\<open>UserProfile.objects.get_or_create(user=..., defaults={'role': 'host'})\<close> returns
  the profile of the user and whether it had to create it.
\<close>

definition get_or_create :: "db \<Rightarrow> nat \<Rightarrow> (profile \<times> bool) \<times> db" where
  "get_or_create d u =
     (case profiles d u of
        Some p \<Rightarrow> ((p, False), d)
      | None \<Rightarrow>
          (let p = \<lparr>user = u, role = ''host''\<rparr>
           in ((p, True), d\<lparr>profiles := (profiles d)(u \<mapsto> p)\<rparr>)))"

text \<open>
  The serializer is an argument of the method, and \<^verbatim>\<open>serializers.py\<close> is not part of
  the sources: a serializer is its \<^verbatim>\<open>save(host=profile)\<close>, which either raises or
  returns the table of its model with what it has written. The method opens no
  transaction: each write holds from the moment it is made, so that the database is
  returned also when the method ends in an exception.
\<close>

type_synonym 'r serializer = "profile \<Rightarrow> 'r list \<Rightarrow> exn + 'r list"

definition ListingViews_perform_create ::
  "listing serializer \<Rightarrow> db \<Rightarrow> nat \<Rightarrow> (exn + unit) \<times> db" where
  "ListingViews_perform_create serializer d request_user =
     (let ((user_profile, created), d1) = get_or_create d request_user;
          (user_profile, d2) =
            (if role user_profile \<noteq> ''host'' then
               (let p = user_profile\<lparr>role := ''host''\<rparr>
                in (p, d1\<lparr>profiles := (profiles d1)(request_user \<mapsto> p)\<rparr>))
             else (user_profile, d1))
      in case serializer user_profile (listings d2) of
           Inl e \<Rightarrow> (Inl e, d2)
         | Inr rows \<Rightarrow> (Inr (), d2\<lparr>listings := rows\<rparr>))"

section \<open>BookingViews\<close>

subsection \<open>\<^verbatim>\<open>get_permissions\<close>\<close>

text \<open>Every branch assigns the local list and the method ends without a return.\<close>

definition BookingViews_get_permissions :: "string \<Rightarrow> exn + permission list option" where
  "BookingViews_get_permissions action =
     (let permission_classes =
            (if action \<in> set [''list'', ''retrieve''] then [AllowAny]
             else if action = ''create'' then [IsAuthenticated]
             else [IsAuthenticated])
      in Inr None)"

subsection \<open>\<^verbatim>\<open>perform_create\<close>\<close>

text \<open>
  The class defines \<^verbatim>\<open>perform_create\<close> twice; the second definition replaces the
  first, and is the one embedded here.
\<close>

definition BookingViews_perform_create ::
  "booking serializer \<Rightarrow> db \<Rightarrow> nat \<Rightarrow> (exn + unit) \<times> db" where
  "BookingViews_perform_create serializer d request_user =
     (let ((user_profile, created), d1) = get_or_create d request_user;
          (user_profile, d2) =
            (if role user_profile \<noteq> ''host'' then
               (let p = user_profile\<lparr>role := ''host''\<rparr>
                in (p, d1\<lparr>profiles := (profiles d1)(request_user \<mapsto> p)\<rparr>))
             else (user_profile, d1))
      in case serializer user_profile (bookings d2) of
           Inl e \<Rightarrow> (Inl e, d2)
         | Inr rows \<Rightarrow> (Inr (), d2\<lparr>bookings := rows\<rparr>))"

subsection \<open>\<^verbatim>\<open>availability\<close>\<close>

text \<open>
  The outcome of \<^verbatim>\<open>self.get_object()\<close> is an argument: the queryset of this class
  holds listings and its lookup field is \<^verbatim>\<open>booking_id\<close>, a column that only the
  absent models could settle. The next statement reads the name \<^verbatim>\<open>reuest\<close>. The
  value of the method is a response or Python's \<open>None\<close>.
\<close>

definition BookingViews_availability ::
  "db \<Rightarrow> exn + listing \<Rightarrow> str option \<Rightarrow> str option \<Rightarrow> exn + response option" where
  "BookingViews_availability d got start_param end_param =
     (case got of
        Inl e \<Rightarrow> Inl e
      | Inr listing \<Rightarrow>
          (case lookup_global ''reuest'' of
             Inl e \<Rightarrow> Inl e
           | Inr _ \<Rightarrow>
               if py_not start_param \<or> py_not end_param then
                 map_sum id Some (bad_request ''start_date and end_date parameters are required'')
               else
                 (case (strptime (the start_param), strptime (the end_param)) of
                    (Some start_d, Some end_d) \<Rightarrow>
                      let conflicting = conflict_queryset d listing start_d end_d;
                          is_available = (conflicting = [])
                      in Inr None
                  | _ \<Rightarrow>
                      map_sum id Some (bad_request ''Invalid date format. Use YYYY-MM-DD''))))"

section \<open>The rules of the specification, in its own words\<close>

text \<open>
  Two half-open intervals overlap when each starts before the other ends; a booking is
  active when it is pending or confirmed. These follow the specification, to be compared
  with the filter of the method.
\<close>

definition spec_overlap :: "date \<times> date \<Rightarrow> date \<times> date \<Rightarrow> bool" where
  "spec_overlap A B = (fst A < snd B \<and> fst B < snd A)"

definition spec_active :: "booking \<Rightarrow> bool" where
  "spec_active b = (status b = ''pending'' \<or> status b = ''confirmed'')"

definition interval :: "booking \<Rightarrow> date \<times> date" where
  "interval b = (start_date b, end_date b)"

definition spec_conflict :: "listing \<Rightarrow> date \<Rightarrow> date \<Rightarrow> booking \<Rightarrow> bool" where
  "spec_conflict l s e b =
     (property b = property_id l \<and> spec_active b \<and> spec_overlap (interval b) (s, e))"



text \<open>
  The role assignment rule: a principal without a profile gets one with the role host; a
  profile that exists is changed in place to the role host.
\<close>

definition spec_ensure_host :: "(nat \<rightharpoonup> profile) \<Rightarrow> nat \<Rightarrow> (nat \<rightharpoonup> profile)" where
  "spec_ensure_host ps u =
     (case ps u of
        None \<Rightarrow> ps(u \<mapsto> \<lparr>user = u, role = ''host''\<rparr>)
      | Some p \<Rightarrow> ps(u \<mapsto> p\<lparr>role := ''host''\<rparr>))"

section \<open>Serializers and reachable states\<close>

text \<open>
  Modelled from the spec: \<^verbatim>\<open>serializers.py\<close> is missing from the sources. By
  section 4.3 of the specification the profile of the principal becomes the owning party
  of the newly created listing: the serializer of a creation inserts the listing it was
  given, with the profile as its host, and checks nothing.
\<close>

definition insert_listing :: "listing \<Rightarrow> listing serializer" where
  "insert_listing l = (\<lambda>p rows. Inr (rows @ [l\<lparr>host := user p\<rparr>]))"

text \<open>
  Modelled from the spec: \<^verbatim>\<open>serializers.py\<close> is missing from the sources. Section 5
  of the specification calls the write of a booking the eventual booking insert,
  performed by an external collaborator: the serializer inserts the booking it was given
  and checks nothing. The booking rows here have no column for their owner.
\<close>

definition insert_booking :: "booking \<Rightarrow> booking serializer" where
  "insert_booking b = (\<lambda>p rows. Inr (rows @ [b]))"

text \<open>A serializer whose \<^verbatim>\<open>save\<close> raises.\<close>

definition failing_save :: "exn \<Rightarrow> 'r serializer" where
  "failing_save e = (\<lambda>p rows. Inl e)"

definition empty_db :: db where
  "empty_db = \<lparr>profiles = Map.empty, listings = [], bookings = []\<rparr>"



section \<open>Example states\<close>

text \<open>A listing booked from 1 to 5 January 2024, for the adjacency example.\<close>

definition january_db :: db where
  "january_db =
     \<lparr>profiles = Map.empty,
      listings = [\<lparr>property_id = 1, host = 7, listing_status = ''approved''\<rparr>],
      bookings = [\<lparr>property = 1, status = ''confirmed'',
                   start_date = (2024, 1, 1), end_date = (2024, 1, 5)\<rparr>]\<rparr>"

text \<open>Two listings, the second one not yet approved.\<close>

definition moderation_db :: db where
  "moderation_db =
     \<lparr>profiles = Map.empty,
      listings = [\<lparr>property_id = 1, host = 7, listing_status = ''approved''\<rparr>,
                  \<lparr>property_id = 2, host = 7, listing_status = ''pending''\<rparr>],
      bookings = []\<rparr>"

text \<open>A database where user 3 has a profile with the role guest.\<close>

definition guest_db :: db where
  "guest_db =
     \<lparr>profiles = [3 \<mapsto> \<lparr>user = 3, role = ''guest''\<rparr>], listings = [], bookings = []\<rparr>"

text \<open>
  A listing, three stays in it, and the states that creating them reaches: the second stay
  begins on the day the first one ends, the third one begins two days before.
\<close>

definition flat :: listing where
  "flat = \<lparr>property_id = 1, host = 7, listing_status = ''approved''\<rparr>"

definition first_stay :: booking where
  "first_stay = \<lparr>property = 1, status = ''confirmed'',
                  start_date = (2024, 1, 1), end_date = (2024, 1, 5)\<rparr>"







section \<open>Properties of the availability check\<close>

lemma strptime_Nil: "strptime [] = None"
  by (simp add: strptime_def)

lemma py_not_parsed: "strptime ss = Some s \<Longrightarrow> \<not> py_not (Some ss)"
  by (auto simp: py_not_def strptime_Nil)

lemma conflict_filter_spec: "conflict_filter l s e b = spec_conflict l s e b"
  by (auto simp: conflict_filter_def spec_conflict_def spec_active_def spec_overlap_def
      interval_def)

lemma body_parsed:
  assumes "strptime ss = Some s" and "strptime es = Some e"
  shows "availability_body d l (Some ss) (Some es) =
     (Inr (Response \<lparr>available = (conflict_queryset d l s e = []), start_date_out = s,
                      end_date_out = e,
                      conflicting_bookings = length (conflict_queryset d l s e)\<rparr>),
      [Booking_exists, Booking_count])"
  using assms py_not_parsed [OF assms(1)] py_not_parsed [OF assms(2)]
  by (simp add: availability_body_def Let_def)

text \<open>
  What the statements after line 209 compute, given the listing and two dates that parse:
  the number of active bookings of the listing that overlap the queried interval, counted
  over the rows of the table, and \<open>available\<close> exactly when that number is zero.
\<close>

lemma body_counts_active_overlaps:
  assumes "strptime ss = Some s" and "strptime es = Some e"
  shows "\<exists>r. fst (availability_body d l (Some ss) (Some es)) = Inr (Response r) \<and>
           conflicting_bookings r =
             card {i. i < length (bookings d) \<and> spec_conflict l s e (bookings d ! i)} \<and>
           (available r \<longleftrightarrow>
             card {i. i < length (bookings d) \<and> spec_conflict l s e (bookings d ! i)} = 0)"
proof -
  let ?n = "card {i. i < length (bookings d) \<and> spec_conflict l s e (bookings d ! i)}"
  have count: "length (conflict_queryset d l s e) = ?n"
    unfolding conflict_queryset_def length_filter_conv_card
    by (simp add: conflict_filter_spec)
  then have "(conflict_queryset d l s e = []) \<longleftrightarrow> ?n = 0"
    by (metis length_0_conv)
  with count show ?thesis
    by (simp add: body_parsed [OF assms])
qed

text \<open>
  The object check of \<^verbatim>\<open>get_object\<close> for the action \<^verbatim>\<open>availability\<close> takes the last
  branch of \<^verbatim>\<open>get_permissions\<close>: when the row is found, line 209 ends in
  UnboundLocalError, and otherwise in the error of the lookup.
\<close>

lemma availability_object_check:
  "check_object_permissions (ListingViews_get_permissions ''availability'')
     = Inl (UnboundLocalError ''permission_classes'')"
  by (simp add: check_object_permissions_def ListingViews_get_permissions_def)

lemma get_object_raises: "\<exists>e. ListingViews_get_object ''availability'' d pk = Inl e"
  by (simp add: ListingViews_get_object_def availability_object_check split: list.splits)


lemma availability_raises: "\<exists>e. ListingViews_availability d pk sp ep = (Inl e, [Listing_get])"
  using get_object_raises [of d pk] by (auto simp: ListingViews_availability_def)

lemma january_listing:
  "ListingViews_get_object ''availability'' january_db 1
     = Inl (UnboundLocalError ''permission_classes'')"
  by (simp add: ListingViews_get_object_def ListingViews_get_queryset_def january_db_def
      availability_object_check)

lemma january_raises:
  "ListingViews_availability january_db 1 sp ep
     = (Inl (UnboundLocalError ''permission_classes''), [Listing_get])"
  using january_listing by (simp add: ListingViews_availability_def)

lemmas strptime_eval = strptime_def ascii_def month_alts_def day_alts_def is_digit_def
  is_nonzero_digit_def digit_val_def decimal_def decimal_runs_def valid_date_def
  days_in_month_def is_leap_def

lemma strptime_jan1: "strptime (ascii ''2024-01-01'') = Some (2024, 1, 1)"
  by (simp add: strptime_eval)

lemma strptime_jan3: "strptime (ascii ''2024-01-03'') = Some (2024, 1, 3)"
  by (simp add: strptime_eval)

lemma strptime_jan5: "strptime (ascii ''2024-01-05'') = Some (2024, 1, 5)"
  by (simp add: strptime_eval)

lemma strptime_jan10: "strptime (ascii ''2024-01-10'') = Some (2024, 1, 10)"
  by (simp add: strptime_eval)

lemma january_conflicts:
  "conflict_queryset january_db flat (2024, 1, 3) (2024, 1, 10) = [first_stay] \<and>
   conflict_queryset january_db flat (2024, 1, 5) (2024, 1, 10) = []"
  by (simp add: conflict_queryset_def conflict_filter_def january_db_def flat_def
      first_stay_def)

text \<open>
  C1. The availability check never returns an availability answer: for a listing that
  exists, line 209 ends in UnboundLocalError. On the listing booked from 1 to 5 January,
  asked for 3 to 10 January, the method raises after it has fetched the listing, where the
  statements that follow would have answered not available with one conflict.
\<close>

theorem availability_never_answers:
  "(\<forall>r. fst (ListingViews_availability d pk sp ep) \<noteq> Inr (Response r)) \<and>
   ListingViews_availability january_db 1
       (Some (ascii ''2024-01-03'')) (Some (ascii ''2024-01-10''))
     = (Inl (UnboundLocalError ''permission_classes''), [Listing_get]) \<and>
   availability_body january_db flat
       (Some (ascii ''2024-01-03'')) (Some (ascii ''2024-01-10''))
     = (Inr (Response \<lparr>available = False, start_date_out = (2024, 1, 3),
                        end_date_out = (2024, 1, 10), conflicting_bookings = 1\<rparr>),
        [Booking_exists, Booking_count])"
proof -
  have never: "\<forall>r. fst (ListingViews_availability d pk sp ep) \<noteq> Inr (Response r)"
    using availability_raises [of d pk sp ep] by auto
  have body: "availability_body january_db flat
       (Some (ascii ''2024-01-03'')) (Some (ascii ''2024-01-10''))
     = (Inr (Response \<lparr>available = False, start_date_out = (2024, 1, 3),
                        end_date_out = (2024, 1, 10), conflicting_bookings = 1\<rparr>),
        [Booking_exists, Booking_count])"
    using body_parsed [OF strptime_jan3 strptime_jan10, of january_db flat] january_conflicts
    by simp
  from never january_raises body show ?thesis
    by blast
qed

text \<open>
  C2. The filter of the availability check selects a booking exactly when it belongs to
  the listing, is pending or confirmed, starts before the queried end and ends after the
  queried start, and it selects nothing for 5 to 10 January on the listing booked from 1
  to 5 January. The method all the same does not answer available there: it raises at
  line 209.
\<close>

theorem adjacent_query_raises:
  "ListingViews_availability january_db 1
       (Some (ascii ''2024-01-05'')) (Some (ascii ''2024-01-10''))
     = (Inl (UnboundLocalError ''permission_classes''), [Listing_get]) \<and>
   conflict_queryset january_db flat (2024, 1, 5) (2024, 1, 10) = [] \<and>
   (conflict_filter l s e b \<longleftrightarrow>
      property b = property_id l \<and> (status b = ''pending'' \<or> status b = ''confirmed'') \<and>
      start_date b < e \<and> s < end_date b)"
proof -
  have test: "conflict_filter l s e b \<longleftrightarrow>
      property b = property_id l \<and> (status b = ''pending'' \<or> status b = ''confirmed'') \<and>
      start_date b < e \<and> s < end_date b"
    by (auto simp: conflict_filter_def)
  from test january_raises january_conflicts show ?thesis
    by blast
qed

section \<open>Properties of the listing queryset\<close>

lemma filter_unique_key:
  "distinct (map f xs) \<Longrightarrow> x \<in> set xs \<Longrightarrow> filter (\<lambda>y. f y = f x) xs = [x]"
proof (induction xs)
  case Nil
  then show ?case by simp
next
  case (Cons a xs)
  show ?case
  proof (cases "a = x")
    case True
    with Cons.prems have "f x \<notin> f ` set xs"
      by simp
    then have "\<forall>y \<in> set xs. f y \<noteq> f x"
      by (metis imageI)
    then have "filter (\<lambda>y. f y = f x) xs = []"
      by (simp add: filter_empty_conv)
    with True show ?thesis by simp
  next
    case False
    with Cons.prems have "x \<in> set xs" and "f a \<noteq> f x" and "distinct (map f xs)"
      by auto
    with Cons.IH show ?thesis by simp
  qed
qed

text \<open>
  C7. The queryset of the list action holds exactly the approved listings; that of
  retrieve, create, update and destroy holds every listing. A listing that is not approved
  is therefore absent from the list and still returned when it is retrieved by its key
  (keys identify rows).
\<close>

theorem list_approved_retrieve_any:
  "set (ListingViews_get_queryset ''list'' d) =
     {l \<in> set (listings d). listing_status l = ''approved''} \<and>
   (\<forall>a \<in> set [''retrieve'', ''create'', ''update'', ''partial_update'', ''destroy''].
      ListingViews_get_queryset a d = listings d) \<and>
   (distinct (map property_id (listings d)) \<and> l \<in> set (listings d) \<and>
    listing_status l \<noteq> ''approved'' \<longrightarrow>
      l \<notin> set (ListingViews_get_queryset ''list'' d) \<and>
      ListingViews_get_object ''retrieve'' d (property_id l) = Inr l)"
proof -
  have shown: "set (ListingViews_get_queryset ''list'' d) =
     {l \<in> set (listings d). listing_status l = ''approved''}"
    by (auto simp: ListingViews_get_queryset_def)
  have others: "\<forall>a \<in> set [''retrieve'', ''create'', ''update'', ''partial_update'', ''destroy''].
      ListingViews_get_queryset a d = listings d"
    by (simp add: ListingViews_get_queryset_def)
  have hidden: "distinct (map property_id (listings d)) \<and> l \<in> set (listings d) \<and>
    listing_status l \<noteq> ''approved'' \<longrightarrow>
      l \<notin> set (ListingViews_get_queryset ''list'' d) \<and>
      ListingViews_get_object ''retrieve'' d (property_id l) = Inr l"
  proof (intro impI, elim conjE)
    assume keys: "distinct (map property_id (listings d))" and row: "l \<in> set (listings d)"
      and pending: "listing_status l \<noteq> ''approved''"
    have "filter (\<lambda>y. property_id y = property_id l) (listings d) = [l]"
      using keys row by (rule filter_unique_key)
    then have "ListingViews_get_object ''retrieve'' d (property_id l) = Inr l"
      by (simp add: ListingViews_get_object_def ListingViews_get_queryset_def
          check_object_permissions_def ListingViews_get_permissions_def
          has_object_permission_def)
    moreover have "l \<notin> set (ListingViews_get_queryset ''list'' d)"
      using pending by (simp add: ListingViews_get_queryset_def)
    ultimately show "l \<notin> set (ListingViews_get_queryset ''list'' d) \<and>
      ListingViews_get_object ''retrieve'' d (property_id l) = Inr l"
      by simp
  qed
  from shown others hidden show ?thesis
    by blast
qed


theorem list_approved_retrieve_any_witness:
  "set (ListingViews_get_queryset ''list'' moderation_db) =
     {\<lparr>property_id = 1, host = 7, listing_status = ''approved''\<rparr>} \<and>
   ListingViews_get_queryset ''destroy'' moderation_db = listings moderation_db \<and>
   \<lparr>property_id = 2, host = 7, listing_status = ''pending''\<rparr>
     \<notin> set (ListingViews_get_queryset ''list'' moderation_db) \<and>
   ListingViews_get_object ''retrieve'' moderation_db 2 =
     Inr \<lparr>property_id = 2, host = 7, listing_status = ''pending''\<rparr>"
proof -
  have keys: "distinct (map property_id (listings moderation_db))"
    by (simp add: moderation_db_def)
  have row: "\<lparr>property_id = 2, host = 7, listing_status = ''pending''\<rparr>
      \<in> set (listings moderation_db)"
    by (simp add: moderation_db_def)
  have approved: "{l \<in> set (listings moderation_db). listing_status l = ''approved''} =
      {\<lparr>property_id = 1, host = 7, listing_status = ''approved''\<rparr>}"
    by (auto simp: moderation_db_def)
  show ?thesis
    using list_approved_retrieve_any
      [of moderation_db "\<lparr>property_id = 2, host = 7, listing_status = ''pending''\<rparr>"]
      keys row approved
    by simp
qed

section \<open>Requests without usable dates\<close>





section \<open>The availability action of BookingViews\<close>

text \<open>
  C10. Once the object is found, the method reads the unbound name \<^verbatim>\<open>reuest\<close> and ends
  in NameError whatever the parameters are: it never reaches the conflict query. Whatever
  \<^verbatim>\<open>get_object\<close> does, the method ends in an exception.
\<close>

theorem booking_availability_raises:
  "BookingViews_availability d (Inr l) sp ep = Inl (NameError ''reuest'') \<and>
   isl (BookingViews_availability d got sp ep)"
  by (simp add: BookingViews_availability_def lookup_global_def module_globals_def
      split: sum.splits)

section \<open>Permissions of the writing actions\<close>

text \<open>
  The availability action of a listing is neither list, retrieve nor create: the
  permission check in front of it takes the last branch of \<^verbatim>\<open>get_permissions\<close>, as
  the object check inside the method does.
\<close>

lemma availability_dispatch:
  "check_permissions (ListingViews_get_permissions ''availability'') requester
     = Inl (UnboundLocalError ''permission_classes'')"
  by (simp add: check_permissions_def ListingViews_get_permissions_def)

text \<open>
  C8. A request without a user is refused with the framework's authorization error when it
  creates a listing. When it updates or destroys a listing, \<^verbatim>\<open>get_permissions\<close> ends
  in UnboundLocalError; on a booking, for every action and every principal, the permission
  check ends in TypeError, since \<^verbatim>\<open>get_permissions\<close> returns \<open>None\<close>.
\<close>

theorem writes_without_user:
  "check_permissions (ListingViews_get_permissions ''create'') None = Inl NotAuthenticated \<and>
   check_permissions (ListingViews_get_permissions ''update'') None
     = Inl (UnboundLocalError ''permission_classes'') \<and>
   check_permissions (ListingViews_get_permissions ''partial_update'') None
     = Inl (UnboundLocalError ''permission_classes'') \<and>
   check_permissions (ListingViews_get_permissions ''destroy'') None
     = Inl (UnboundLocalError ''permission_classes'') \<and>
   check_permissions (BookingViews_get_permissions action) requester
     = Inl (TypeError ''NoneType object is not iterable'')"
  by (simp add: check_permissions_def ListingViews_get_permissions_def
      BookingViews_get_permissions_def has_permission_def)


section \<open>Creation and the profile of the principal\<close>

lemma listing_create_profiles:
  "profiles (snd (ListingViews_perform_create ser d u)) = spec_ensure_host (profiles d) u"
proof (cases "profiles d u")
  case None
  then show ?thesis
    by (simp add: ListingViews_perform_create_def get_or_create_def spec_ensure_host_def
        Let_def split: sum.splits)
next
  case (Some p)
  show ?thesis
  proof (cases "role p = ''host''")
    case True
    then have "(profiles d)(u \<mapsto> p\<lparr>role := ''host''\<rparr>) = profiles d"
      using Some by (simp add: map_upd_triv)
    with Some True show ?thesis
      by (simp add: ListingViews_perform_create_def get_or_create_def spec_ensure_host_def
          split: sum.splits)
  next
    case False
    with Some show ?thesis
      by (simp add: ListingViews_perform_create_def get_or_create_def spec_ensure_host_def
          Let_def split: sum.splits)
  qed
qed

lemma booking_create_profiles:
  "profiles (snd (BookingViews_perform_create ser d u)) = spec_ensure_host (profiles d) u"
proof (cases "profiles d u")
  case None
  then show ?thesis
    by (simp add: BookingViews_perform_create_def get_or_create_def spec_ensure_host_def
        Let_def split: sum.splits)
next
  case (Some p)
  show ?thesis
  proof (cases "role p = ''host''")
    case True
    then have "(profiles d)(u \<mapsto> p\<lparr>role := ''host''\<rparr>) = profiles d"
      using Some by (simp add: map_upd_triv)
    with Some True show ?thesis
      by (simp add: BookingViews_perform_create_def get_or_create_def spec_ensure_host_def
          split: sum.splits)
  next
    case False
    with Some show ?thesis
      by (simp add: BookingViews_perform_create_def get_or_create_def spec_ensure_host_def
          Let_def split: sum.splits)
  qed
qed

lemma ensure_host_role: "\<exists>p. spec_ensure_host ps u u = Some p \<and> role p = ''host''"
  by (simp add: spec_ensure_host_def split: option.splits)

lemma ensure_host_twice: "spec_ensure_host (spec_ensure_host ps u) u = spec_ensure_host ps u"
  by (auto simp: spec_ensure_host_def split: option.splits)

lemma ensure_host_others: "v \<noteq> u \<Longrightarrow> spec_ensure_host ps u v = ps v"
  by (simp add: spec_ensure_host_def split: option.splits)


text \<open>
  C5. After a listing or a booking is created the profile of the principal exists with the
  role host: it is a new profile when the principal had none, and the old one with its
  role set to host otherwise. A second creation by the same principal leaves the profiles
  as they are. This holds whatever the serializer does, so also after a successful
  creation.
\<close>

theorem creation_makes_host:
  "(\<exists>p. profiles (snd (ListingViews_perform_create ser d u)) u = Some p \<and> role p = ''host'') \<and>
   (profiles d u = None \<longrightarrow>
      profiles (snd (ListingViews_perform_create ser d u)) u
        = Some \<lparr>user = u, role = ''host''\<rparr>) \<and>
   (\<forall>p. profiles d u = Some p \<longrightarrow>
      profiles (snd (ListingViews_perform_create ser d u)) u = Some (p\<lparr>role := ''host''\<rparr>)) \<and>
   profiles (snd (ListingViews_perform_create ser' (snd (ListingViews_perform_create ser d u)) u))
     = profiles (snd (ListingViews_perform_create ser d u)) \<and>
   (\<exists>p. profiles (snd (BookingViews_perform_create bser d u)) u = Some p \<and> role p = ''host'') \<and>
   (profiles d u = None \<longrightarrow>
      profiles (snd (BookingViews_perform_create bser d u)) u
        = Some \<lparr>user = u, role = ''host''\<rparr>) \<and>
   (\<forall>p. profiles d u = Some p \<longrightarrow>
      profiles (snd (BookingViews_perform_create bser d u)) u = Some (p\<lparr>role := ''host''\<rparr>)) \<and>
   profiles (snd (BookingViews_perform_create bser' (snd (BookingViews_perform_create bser d u)) u))
     = profiles (snd (BookingViews_perform_create bser d u))"
proof -
  have absent: "ps u = None \<longrightarrow> spec_ensure_host ps u u = Some \<lparr>user = u, role = ''host''\<rparr>"
    for ps :: "nat \<rightharpoonup> profile"
    by (simp add: spec_ensure_host_def)
  have present: "\<forall>p. ps u = Some p \<longrightarrow> spec_ensure_host ps u u = Some (p\<lparr>role := ''host''\<rparr>)"
    for ps :: "nat \<rightharpoonup> profile"
    by (simp add: spec_ensure_host_def)
  show ?thesis
    unfolding listing_create_profiles booking_create_profiles ensure_host_twice
    using ensure_host_role [of "profiles d" u] absent [of "profiles d"] present [of "profiles d"]
    by blast
qed

theorem creation_makes_host_witness:
  "profiles empty_db 3 = None \<and>
   profiles (snd (ListingViews_perform_create (insert_listing flat) empty_db 3)) 3
     = Some \<lparr>user = 3, role = ''host''\<rparr> \<and>
   profiles (snd (BookingViews_perform_create (insert_booking first_stay) empty_db 3)) 3
     = Some \<lparr>user = 3, role = ''host''\<rparr> \<and>
   profiles guest_db 3 = Some \<lparr>user = 3, role = ''guest''\<rparr> \<and>
   profiles (snd (ListingViews_perform_create (insert_listing flat) guest_db 3)) 3
     = Some \<lparr>user = 3, role = ''host''\<rparr>"
proof -
  have none: "profiles empty_db 3 = None"
    by (simp add: empty_db_def)
  have guest: "profiles guest_db 3 = Some \<lparr>user = 3, role = ''guest''\<rparr>"
    by (simp add: guest_db_def)
  from creation_makes_host [of "insert_listing flat" empty_db 3 _ "insert_booking first_stay"] none
  have fresh:
    "profiles (snd (ListingViews_perform_create (insert_listing flat) empty_db 3)) 3
       = Some \<lparr>user = 3, role = ''host''\<rparr> \<and>
     profiles (snd (BookingViews_perform_create (insert_booking first_stay) empty_db 3)) 3
       = Some \<lparr>user = 3, role = ''host''\<rparr>"
    by blast
  from creation_makes_host [of "insert_listing flat" guest_db 3] guest
  have "profiles (snd (ListingViews_perform_create (insert_listing flat) guest_db 3)) 3
      = Some (\<lparr>user = 3, role = ''guest''\<rparr>\<lparr>role := ''host''\<rparr>)"
    by blast
  with none guest fresh show ?thesis
    by simp
qed

section \<open>Creation that fails\<close>

lemma listing_create_failure:
  "fst (ListingViews_perform_create ser d u) = Inl e \<Longrightarrow>
   listings (snd (ListingViews_perform_create ser d u)) = listings d \<and>
   bookings (snd (ListingViews_perform_create ser d u)) = bookings d"
  by (auto simp: ListingViews_perform_create_def get_or_create_def Let_def
      split: option.splits sum.splits if_splits)

lemma booking_create_failure:
  "fst (BookingViews_perform_create ser d u) = Inl e \<Longrightarrow>
   listings (snd (BookingViews_perform_create ser d u)) = listings d \<and>
   bookings (snd (BookingViews_perform_create ser d u)) = bookings d"
  by (auto simp: BookingViews_perform_create_def get_or_create_def Let_def
      split: option.splits sum.splits if_splits)

text \<open>
  C9, the claim as stated. A principal without a profile creates a listing and the
  serializer raises: no listing is written, and the principal has a host profile all the
  same.
\<close>

theorem failed_creation_leaves_profile:
  "fst (ListingViews_perform_create (failing_save (SaveError ''listing'')) empty_db 3)
     = Inl (SaveError ''listing'') \<and>
   profiles empty_db 3 = None \<and>
   profiles (snd (ListingViews_perform_create (failing_save (SaveError ''listing'')) empty_db 3)) 3
     = Some \<lparr>user = 3, role = ''host''\<rparr>"
  by (simp add: ListingViews_perform_create_def get_or_create_def failing_save_def empty_db_def
      Let_def)

text \<open>
  C9, amended. When the creation of the listing or of the booking fails, no listing and no
  booking is written, and the profiles are those that the role assignment rule leaves:
  the promotion is made before the creation is tried and is not undone.
\<close>

theorem failed_creation_keeps_promotion:
  "(fst (ListingViews_perform_create ser d u) = Inl e \<longrightarrow>
      listings (snd (ListingViews_perform_create ser d u)) = listings d \<and>
      bookings (snd (ListingViews_perform_create ser d u)) = bookings d \<and>
      profiles (snd (ListingViews_perform_create ser d u)) = spec_ensure_host (profiles d) u) \<and>
   (fst (BookingViews_perform_create bser d u) = Inl e' \<longrightarrow>
      listings (snd (BookingViews_perform_create bser d u)) = listings d \<and>
      bookings (snd (BookingViews_perform_create bser d u)) = bookings d \<and>
      profiles (snd (BookingViews_perform_create bser d u)) = spec_ensure_host (profiles d) u)"
  using listing_create_failure [of ser d u e] booking_create_failure [of bser d u e']
  by (simp add: listing_create_profiles booking_create_profiles)

theorem failed_creation_keeps_promotion_witness:
  "fst (BookingViews_perform_create (failing_save (SaveError ''booking'')) january_db 3)
     = Inl (SaveError ''booking'') \<and>
   bookings (snd (BookingViews_perform_create (failing_save (SaveError ''booking'')) january_db 3))
     = bookings january_db \<and>
   profiles (snd (BookingViews_perform_create (failing_save (SaveError ''booking'')) january_db 3))
     = spec_ensure_host (profiles january_db) 3"
proof -
  have failed: "fst (BookingViews_perform_create (failing_save (SaveError ''booking'')) january_db 3)
     = Inl (SaveError ''booking'')"
    by (simp add: BookingViews_perform_create_def get_or_create_def failing_save_def
        january_db_def Let_def)
  with failed_creation_keeps_promotion
    [of _ january_db 3 _ "failing_save (SaveError ''booking'')" "SaveError ''booking''"]
  show ?thesis
    by blast
qed


section \<open>Creation of bookings and the availability check\<close>









section \<open>The invariant of the bookings\<close>









end
